theory Spec2Isabelle
  imports Complex_Main
begin

section \<open>The reactive table component (src/index.js)\<close>

text \<open>
  The component \<^verbatim>\<open>ReactiveTable\<close> keeps two textual properties (\<^verbatim>\<open>data\<close>,
  \<^verbatim>\<open>schema\<close>), their parsed forms (\<^verbatim>\<open>_data\<close>, \<^verbatim>\<open>_schema\<close>), a flag
  \<^verbatim>\<open>hasHiddenRows\<close> and the custom style property \<^verbatim>\<open>--gridtemplate\<close>.
  \<^verbatim>\<open>willUpdate\<close> parses, \<^verbatim>\<open>render\<close> builds the table, and
  \<^verbatim>\<open>_handleToggleExpandClick\<close> mutates class lists of rendered cells.

  Scope of the embedding. The parsed inputs have the shape of the data model: a schema is
  an array of column descriptors whose \<^verbatim>\<open>key\<close> is a string, a data set is an array whose
  entries are objects or arrays of objects. An object is a finite map from the names of
  its own properties to values; a read of a name that the object does not own goes on to
  the object prototype, as \<^verbatim>\<open>row[h.key]\<close> does.
  \<^verbatim>\<open>JSON.parse\<close> belongs to the platform and is a parameter of \<^verbatim>\<open>willUpdate\<close>.
\<close>

subsection \<open>Values\<close>

datatype jsval =
    Undefined
  | Null
  | Bool bool
  | Num real
  | Str string
  | Arr "jsval list"
  | Obj "(string \<times> jsval) list"
  | Inherited string

type_synonym obj = "string \<rightharpoonup> jsval"

text \<open>
  The names every object inherits from \<^verbatim>\<open>Object.prototype\<close> (the platform's, as the
  language standard lists them). \<open>Inherited k\<close> is the inherited member of name \<open>k\<close>:
  a function, or the prototype object itself for \<^verbatim>\<open>__proto__\<close>. It is neither
  \<^verbatim>\<open>null\<close> nor \<^verbatim>\<open>undefined\<close>.
\<close>

definition Object_prototype :: "string list" where
  "Object_prototype =
     [''constructor'', ''hasOwnProperty'', ''isPrototypeOf'', ''propertyIsEnumerable'',
      ''toLocaleString'', ''toString'', ''valueOf'', ''__proto__'',
      ''__defineGetter__'', ''__defineSetter__'', ''__lookupGetter__'', ''__lookupSetter__'']"

text \<open>
  The property read \<^verbatim>\<open>o[k]\<close> on an object: the own property when there is one, else
  the member inherited under that name, else \<^verbatim>\<open>undefined\<close>.
\<close>

definition get :: "obj \<Rightarrow> string \<Rightarrow> jsval" where
  "get ob k =
     (case ob k of
        Some v \<Rightarrow> v
      | None \<Rightarrow> if k \<in> set Object_prototype then Inherited k else Undefined)"

text \<open>The operator \<^verbatim>\<open>a ?? b\<close>.\<close>

definition nullish :: "jsval \<Rightarrow> jsval \<Rightarrow> jsval" where
  "nullish a b = (if a = Undefined \<or> a = Null then b else a)"

text \<open>
  A column descriptor \<^verbatim>\<open>{key, name, default}\<close>; an absent field reads
  \<^verbatim>\<open>undefined\<close> (none of the three names is inherited).
\<close>

record column =
  key :: string
  name :: jsval
  default :: jsval

text \<open>
  An entry of the data set: \<^verbatim>\<open>Array.isArray(row)\<close> tells an array of subrows from a
  plain object.
\<close>

datatype row = PlainRow obj | GroupedRow "obj list"

fun isArray :: "row \<Rightarrow> bool" where
  "isArray (GroupedRow subrows) = True"
| "isArray (PlainRow r) = False"

subsection \<open>The component's state\<close>

text \<open>
  The value of \<^verbatim>\<open>--gridtemplate\<close> as a list of CSS track sizes: \<^verbatim>\<open>1rem\<close> is
  \<open>Rem 1\<close>, \<^verbatim>\<open>1fr\<close> is \<open>Fr 1\<close>, \<^verbatim>\<open>repeat(n, 1fr)\<close> is \<open>Repeat n [Fr 1]\<close>.
  \<open>column_count\<close> is the number of tracks the value lists; for an empty schema the
  code writes \<^verbatim>\<open>repeat(0, 1fr)\<close>, which lists none.
\<close>

datatype track = Rem nat | Fr nat | Repeat nat "track list"

fun tracks :: "track \<Rightarrow> nat" where
  "tracks (Rem w) = 1"
| "tracks (Fr w) = 1"
| "tracks (Repeat n ts) = n * sum_list (map tracks ts)"

definition column_count :: "track list \<Rightarrow> nat" where
  "column_count ts = sum_list (map tracks ts)"

text \<open>
  The properties \<^verbatim>\<open>data\<close> and \<^verbatim>\<open>schema\<close> hold a string or nothing
  (\<^verbatim>\<open>null\<close>/\<^verbatim>\<open>undefined\<close>). \<open>parsed_data\<close> and \<open>parsed_schema\<close> are the fields
  \<^verbatim>\<open>_data\<close> and \<^verbatim>\<open>_schema\<close>.
\<close>

record ReactiveTable =
  data :: "string option"
  schema :: "string option"
  parsed_data :: "row list"
  parsed_schema :: "column list"
  hasHiddenRows :: bool
  gridtemplate :: "track list"

text \<open>The constructor; the style sheet's initial \<^verbatim>\<open>--gridtemplate\<close> is \<^verbatim>\<open>repeat(1, 1fr)\<close>.\<close>

definition constructor :: ReactiveTable where
  "constructor =
     \<lparr> data = Some ''[]'', schema = Some ''[]'', parsed_data = [], parsed_schema = [],
       hasHiddenRows = False, gridtemplate = [Repeat 1 [Fr 1]] \<rparr>"

subsection \<open>Parsing: \<^verbatim>\<open>willUpdate\<close>\<close>

datatype error = SyntaxError

text \<open>A string property is truthy when it is a non-empty string.\<close>

fun truthy :: "string option \<Rightarrow> bool" where
  "truthy None = False"
| "truthy (Some s) = (s \<noteq> [])"

text \<open>
  What one run of \<^verbatim>\<open>willUpdate\<close> leaves behind: the component after the run, the
  properties on which \<^verbatim>\<open>JSON.parse\<close> was called (in call order), and the exception
  that left the method, if any.
\<close>

record outcome =
  after :: ReactiveTable
  parsed :: "string list"
  thrown :: "error option"

text \<open>
  \<^verbatim>\<open>JSON.parse\<close> is taken once at each result type, as \<open>parse_d\<close> for the data set and
  \<open>parse_s\<close> for the schema. \<open>changed\<close> is the set of keys of the map of changed
  properties. An exception in the first statement leaves the method before the second.
\<close>

definition willUpdate ::
  "(string \<Rightarrow> error + row list) \<Rightarrow> (string \<Rightarrow> error + column list) \<Rightarrow>
   string set \<Rightarrow> ReactiveTable \<Rightarrow> outcome" where
  "willUpdate parse_d parse_s changed this =
     (let step1 =
        (if ''data'' \<in> changed \<and> truthy (data this) then
           (case parse_d (the (data this)) of
              Inl e \<Rightarrow> \<lparr> after = this, parsed = [''data''], thrown = Some e \<rparr>
            | Inr v \<Rightarrow> \<lparr> after = this\<lparr>parsed_data := v\<rparr>, parsed = [''data''], thrown = None \<rparr>)
         else \<lparr> after = this, parsed = [], thrown = None \<rparr>)
      in
        (case thrown step1 of
           Some e \<Rightarrow> step1
         | None \<Rightarrow>
             (if ''schema'' \<in> changed \<and> truthy (schema (after step1)) then
                (case parse_s (the (schema (after step1))) of
                   Inl e \<Rightarrow> step1\<lparr> parsed := parsed step1 @ [''schema''], thrown := Some e \<rparr>
                 | Inr v \<Rightarrow>
                     step1\<lparr> after := (after step1)\<lparr>parsed_schema := v\<rparr>,
                            parsed := parsed step1 @ [''schema''] \<rparr>)
              else step1)))"

subsection \<open>The rendered table\<close>

datatype tag = TH | TD

text \<open>
  What a cell holds: static text of the template, a bound value, or a \<^verbatim>\<open>small\<close>
  element. White space around the static text is dropped.
\<close>

datatype child = Text string | Value jsval | Small "child list"

text \<open>
  A cell: its tag, its \<^verbatim>\<open>classList\<close>, whether the template binds
  \<^verbatim>\<open>@click\<close> to \<^verbatim>\<open>_handleToggleExpandClick\<close> on it, and its children.
\<close>

record cell =
  tag :: tag
  classList :: "string list"
  onclick :: bool
  children :: "child list"

text \<open>The table: the header row, the body rows and the footer row, each a list of cells.\<close>

record table =
  thead :: "cell list"
  tbody :: "cell list list"
  tfoot :: "cell list"

definition getHeaders :: "ReactiveTable \<Rightarrow> cell list" where
  "getHeaders this =
     (if hasHiddenRows this
      then [\<lparr> tag = TH, classList = [], onclick = False, children = [] \<rparr>] else [])
     @ map (\<lambda>h. \<lparr> tag = TH, classList = [], onclick = False, children = [Value (name h)] \<rparr>)
         (parsed_schema this)"

text \<open>The cells of one subrow of a grouped row: \<^verbatim>\<open>(subrow, index) => ...\<close>.\<close>

definition subrow_cells :: "column list \<Rightarrow> nat \<times> obj \<Rightarrow> cell list" where
  "subrow_cells sch p =
     (case p of (index, subrow) \<Rightarrow>
        \<lparr> tag = TD,
          classList = (if index \<noteq> 0 then [''subrow'', ''hidden''] else [''expander'']),
          onclick = True, children = [] \<rparr>
        # map (\<lambda>h. \<lparr> tag = TD,
                      classList = (if index \<noteq> 0 then [''subrow'', ''hidden''] else []),
                      onclick = False,
                      children = [Value (nullish (get subrow (key h)) (default h))] \<rparr>)
            sch)"

text \<open>The \<^verbatim>\<open>tr\<close> of one entry of the data set.\<close>

fun row_cells :: "ReactiveTable \<Rightarrow> row \<Rightarrow> cell list" where
  "row_cells this (GroupedRow subrows) =
     concat (map (subrow_cells (parsed_schema this)) (enumerate 0 subrows))"
| "row_cells this (PlainRow r) =
     (if hasHiddenRows this
      then [\<lparr> tag = TD, classList = [], onclick = False, children = [] \<rparr>] else [])
     @ map (\<lambda>h. \<lparr> tag = TD, classList = [], onclick = False,
                   children = [Value (nullish (get r (key h)) (default h))] \<rparr>)
         (parsed_schema this)"

definition getRows :: "ReactiveTable \<Rightarrow> cell list list" where
  "getRows this =
     (if length (parsed_data this) = 0
      then [[\<lparr> tag = TD, classList = [''nodata''], onclick = False,
               children = [Text ''There is no data to show''] \<rparr>]]
      else map (row_cells this) (parsed_data this))"

text \<open>
  \<^verbatim>\<open>render\<close> first stores \<^verbatim>\<open>hasHiddenRows\<close> and \<^verbatim>\<open>--gridtemplate\<close> on the
  component, then builds the table from the updated component.
\<close>

definition render :: "ReactiveTable \<Rightarrow> ReactiveTable \<times> table" where
  "render this =
     (let this1 = this\<lparr> hasHiddenRows := list_ex isArray (parsed_data this) \<rparr>;
          this2 =
            (if hasHiddenRows this1
             then this1\<lparr> gridtemplate := [Rem 1, Repeat (length (parsed_schema this1)) [Fr 1]] \<rparr>
             else this1\<lparr> gridtemplate := [Repeat (length (parsed_schema this1)) [Fr 1]] \<rparr>)
      in (this2,
          \<lparr> thead = getHeaders this2,
            tbody = getRows this2,
            tfoot = [\<lparr> tag = TD, classList = [], onclick = False,
                       children = [Small [Value (Num (real (length (parsed_data this2)))),
                                          Text '' records'']] \<rparr>] \<rparr>))"

subsection \<open>The click handler\<close>

text \<open>\<^verbatim>\<open>classList.toggle(token)\<close>: remove the token when present, append it otherwise.\<close>

definition toggle :: "string \<Rightarrow> string list \<Rightarrow> string list" where
  "toggle token cl = (if token \<in> set cl then removeAll token cl else cl @ [token])"

text \<open>
  \<^verbatim>\<open>_handleToggleExpandClick\<close>, given the parent row of the event target and the
  target's position \<open>j\<close> in it: every cell of the row that matches \<^verbatim>\<open>.subrow\<close> gets
  \<^verbatim>\<open>hidden\<close> toggled, then the target gets \<^verbatim>\<open>expanded\<close> toggled.
\<close>

definition handleToggleExpandClick :: "nat \<Rightarrow> cell list \<Rightarrow> cell list" where
  "handleToggleExpandClick j row =
     (let row1 = map (\<lambda>c. if ''subrow'' \<in> set (classList c)
                           then c\<lparr> classList := toggle ''hidden'' (classList c) \<rparr> else c) row
      in row1[j := (row1 ! j)\<lparr> classList := toggle ''expanded'' (classList (row1 ! j)) \<rparr>])"

text \<open>
  A click on cell \<open>j\<close> of body row \<open>i\<close>: the handler runs when that cell exists and
  carries the \<^verbatim>\<open>@click\<close> binding; nothing happens otherwise.
\<close>

definition click :: "nat \<Rightarrow> nat \<Rightarrow> table \<Rightarrow> table" where
  "click i j t =
     (if i < length (tbody t) \<and> j < length (tbody t ! i) \<and> onclick (tbody t ! i ! j)
      then t\<lparr> tbody := (tbody t)[i := handleToggleExpandClick j (tbody t ! i)] \<rparr>
      else t)"

text \<open>A sequence of clicks, each given by its row and cell position.\<close>

fun clicks :: "(nat \<times> nat) list \<Rightarrow> table \<Rightarrow> table" where
  "clicks [] t = t"
| "clicks (p # ps) t = clicks ps (click (fst p) (snd p) t)"

text \<open>The style sheet hides a cell with \<^verbatim>\<open>td.hidden { display: none }\<close>.\<close>

definition hidden :: "cell \<Rightarrow> bool" where
  "hidden c = (''hidden'' \<in> set (classList c))"

definition expanded :: "cell \<Rightarrow> bool" where
  "expanded c = (''expanded'' \<in> set (classList c))"

definition subrow_marked :: "cell \<Rightarrow> bool" where
  "subrow_marked c = (''subrow'' \<in> set (classList c))"

subsection \<open>The two readings of a cell value\<close>

text \<open>
  The value a cell shows for row object \<open>r\<close> and column \<open>c\<close>, in the words of the
  specification: the field when it is present and neither \<^verbatim>\<open>null\<close> nor
  \<^verbatim>\<open>undefined\<close>, the column's default otherwise. The templates compute
  \<open>nullish (get r (key c)) (default c)\<close>; the two are compared below.
\<close>

definition cell_value_spec :: "obj \<Rightarrow> column \<Rightarrow> jsval" where
  "cell_value_spec r c =
     (case r (key c) of
        None \<Rightarrow> default c
      | Some v \<Rightarrow> if v = Null \<or> v = Undefined then default c else v)"

subsection \<open>Notions used in the proofs\<close>

text \<open>What the handler's loop does to one cell of the row.\<close>

definition flip_hidden :: "cell \<Rightarrow> cell" where
  "flip_hidden c =
     (if ''subrow'' \<in> set (classList c)
      then c\<lparr> classList := toggle ''hidden'' (classList c) \<rparr> else c)"

text \<open>The row of a grouped entry after one click on its expander.\<close>

definition expanded_row :: "column list \<Rightarrow> obj \<Rightarrow> obj list \<Rightarrow> cell list" where
  "expanded_row sch s subrows =
     \<lparr> tag = TD, classList = [''expander'', ''expanded''], onclick = True, children = [] \<rparr>
     # (tl (subrow_cells sch (0, s))
        @ map (\<lambda>c. c\<lparr> classList := [''subrow''] \<rparr>)
            (concat (map (subrow_cells sch) (enumerate (Suc 0) subrows))))"

subsection \<open>Sample inputs\<close>

text \<open>
  The schema \<^verbatim>\<open>[{key:"a", name:"A", default:"-"}]\<close> and three data sets:
  \<^verbatim>\<open>[{a:1}, [{a:2},{a:3}]]\<close>, \<^verbatim>\<open>[{}, {a:null}]\<close> and
  \<^verbatim>\<open>[[{a:1},{a:2}], [{a:3},{}]]\<close>.
\<close>

definition schema_A :: "column list" where
  "schema_A = [\<lparr> key = ''a'', name = Str ''A'', default = Str ''-'' \<rparr>]"

definition dataset_mixed :: "row list" where
  "dataset_mixed =
     [PlainRow [''a'' \<mapsto> Num 1], GroupedRow [[''a'' \<mapsto> Num 2], [''a'' \<mapsto> Num 3]]]"

definition dataset_plain :: "row list" where
  "dataset_plain = [PlainRow Map.empty, PlainRow [''a'' \<mapsto> Null]]"

definition dataset_groups :: "row list" where
  "dataset_groups =
     [GroupedRow [[''a'' \<mapsto> Num 1], [''a'' \<mapsto> Num 2]],
      GroupedRow [[''a'' \<mapsto> Num 3], Map.empty]]"

text \<open>The schema \<^verbatim>\<open>[{key:"toString", name:"T", default:"-"}]\<close> and the data set \<^verbatim>\<open>[{}, [{}]]\<close>.\<close>

definition schema_toString :: "column list" where
  "schema_toString = [\<lparr> key = ''toString'', name = Str ''T'', default = Str ''-'' \<rparr>]"

definition empty_object :: obj where
  "empty_object = Map.empty"

definition dataset_empty_objects :: "row list" where
  "dataset_empty_objects = [PlainRow empty_object, GroupedRow [empty_object]]"

text \<open>A component whose parsed fields hold the given data set and schema.\<close>

definition table_of :: "row list \<Rightarrow> column list \<Rightarrow> ReactiveTable" where
  "table_of d s = constructor\<lparr> parsed_data := d, parsed_schema := s \<rparr>"

text \<open>
  Two parse functions for the sample runs. They agree with \<^verbatim>\<open>JSON.parse\<close> on the
  texts the runs use: \<^verbatim>\<open>[]\<close> and \<^verbatim>\<open>[{}]\<close> are valid, the empty text and
  \<^verbatim>\<open>{\<close> are syntax errors. No run below reads them at any other text.
\<close>

definition parse_d_sample :: "string \<Rightarrow> error + row list" where
  "parse_d_sample s =
     (if s = ''[]'' then Inr []
      else if s = ''[{}]'' then Inr [PlainRow Map.empty]
      else Inl SyntaxError)"

definition parse_s_sample :: "string \<Rightarrow> error + column list" where
  "parse_s_sample s = (if s = ''[]'' then Inr [] else Inl SyntaxError)"

lemmas sample_defs =
  schema_A_def dataset_mixed_def dataset_plain_def dataset_groups_def table_of_def
  constructor_def schema_toString_def dataset_empty_objects_def empty_object_def

section \<open>Properties\<close>

subsection \<open>Facts about \<^verbatim>\<open>render\<close>\<close>

lemma render_hasHiddenRows:
  "hasHiddenRows (fst (render this)) = list_ex isArray (parsed_data this)"
  by (simp add: render_def Let_def)

lemma render_parsed:
  "parsed_schema (fst (render this)) = parsed_schema this"
  "parsed_data (fst (render this)) = parsed_data this"
  by (simp_all add: render_def Let_def)

lemma render_thead: "thead (snd (render this)) = getHeaders (fst (render this))"
  by (simp add: render_def Let_def)

lemma render_tbody: "tbody (snd (render this)) = getRows (fst (render this))"
  by (simp add: render_def Let_def)

lemma render_tbody_nth:
  "i < length (parsed_data this) \<Longrightarrow>
   tbody (snd (render this)) ! i = row_cells (fst (render this)) (parsed_data this ! i)"
  by (auto simp: render_tbody getRows_def render_parsed)

lemma render_tbody_length:
  "parsed_data this \<noteq> [] \<Longrightarrow> length (tbody (snd (render this))) = length (parsed_data this)"
  by (auto simp: render_tbody getRows_def render_parsed)

lemma isArray_iff: "isArray r = (\<exists>subrows. r = GroupedRow subrows)"
  by (cases r) simp_all

lemma length_subrow_cells: "length (subrow_cells sch p) = length sch + 1"
  by (simp add: subrow_cells_def split: prod.splits)

lemma nullish_spec:
  "r (key c) \<noteq> None \<or> key c \<notin> set Object_prototype \<Longrightarrow>
   nullish (get r (key c)) (default c) = cell_value_spec r c"
  by (auto simp: nullish_def get_def cell_value_spec_def split: option.splits)

lemma nullish_inherited:
  "r (key c) = None \<Longrightarrow> key c \<in> set Object_prototype \<Longrightarrow>
   nullish (get r (key c)) (default c) = Inherited (key c)"
  by (simp add: nullish_def get_def)

text \<open>Reading a position in a concatenation of blocks of one length.\<close>

lemma nth_concat_blocks:
  "\<forall>x\<in>set xs. length (f x) = m \<Longrightarrow> k < length xs \<Longrightarrow> r < m \<Longrightarrow>
   concat (map f xs) ! (k * m + r) = f (xs ! k) ! r"
proof (induction xs arbitrary: k)
  case Nil
  then show ?case by simp
next
  case (Cons x xs)
  show ?case
  proof (cases k)
    case 0
    with Cons.prems show ?thesis by (simp add: nth_append)
  next
    case (Suc k')
    have "concat (map f (x # xs)) ! (k * m + r) = concat (map f xs) ! (k' * m + r)"
      using Cons.prems Suc by (simp add: nth_append)
    also have "\<dots> = f (xs ! k') ! r"
      using Cons.prems Suc by (intro Cons.IH) auto
    finally show ?thesis using Suc by simp
  qed
qed

text \<open>The value the templates bind at the cell of a column, by position in the row.\<close>

lemma render_cell_plain:
  assumes "i < length (parsed_data this)" "j < length (parsed_schema this)"
    "parsed_data this ! i = PlainRow r"
  shows "children (tbody (snd (render this)) ! i !
                  ((if list_ex isArray (parsed_data this) then 1 else 0) + j))
        = [Value (nullish (get r (key (parsed_schema this ! j))) (default (parsed_schema this ! j)))]"
proof -
  from assms have ne: "parsed_data this \<noteq> []" by auto
  have "tbody (snd (render this)) ! i = row_cells (fst (render this)) (PlainRow r)"
    using assms ne by (simp add: render_tbody getRows_def render_parsed)
  then show ?thesis
    using assms by (simp add: render_hasHiddenRows render_parsed nth_append)
qed

lemma render_cell_subrow:
  assumes "i < length (parsed_data this)" "j < length (parsed_schema this)"
    "parsed_data this ! i = GroupedRow subrows" "k < length subrows"
  shows "children (tbody (snd (render this)) ! i !
                  (k * (length (parsed_schema this) + 1) + (1 + j)))
        = [Value (nullish (get (subrows ! k) (key (parsed_schema this ! j)))
                          (default (parsed_schema this ! j)))]"
proof -
  let ?S = "parsed_schema this"
  from assms have ne: "parsed_data this \<noteq> []" by auto
  have row: "tbody (snd (render this)) ! i =
      concat (map (subrow_cells ?S) (enumerate 0 subrows))"
    using assms ne by (simp add: render_tbody getRows_def render_parsed)
  have "concat (map (subrow_cells ?S) (enumerate 0 subrows)) ! (k * (length ?S + 1) + (1 + j))
      = subrow_cells ?S (enumerate 0 subrows ! k) ! (1 + j)"
    using assms by (intro nth_concat_blocks) (simp_all add: length_subrow_cells)
  also have "\<dots> = subrow_cells ?S (k, subrows ! k) ! (1 + j)"
    using assms by (simp add: nth_enumerate_eq)
  finally show ?thesis
    using assms row by (simp add: subrow_cells_def)
qed

subsection \<open>Layout: the number of columns\<close>

text \<open>
  Claim C1. When no entry of the data set is a grouped row (an array), the grid template
  has as many tracks as the schema has columns and the header has one cell per column;
  when some entry is a grouped row, both counts are one higher (a leading \<^verbatim>\<open>1rem\<close>
  track and a leading empty header cell).
\<close>

theorem render_column_count:
  "((\<forall>subrows. GroupedRow subrows \<notin> set (parsed_data this)) \<longrightarrow>
      gridtemplate (fst (render this)) = [Repeat (length (parsed_schema this)) [Fr 1]] \<and>
      column_count (gridtemplate (fst (render this))) = length (parsed_schema this) \<and>
      length (thead (snd (render this))) = length (parsed_schema this)) \<and>
   ((\<exists>subrows. GroupedRow subrows \<in> set (parsed_data this)) \<longrightarrow>
      gridtemplate (fst (render this)) = [Rem 1, Repeat (length (parsed_schema this)) [Fr 1]] \<and>
      column_count (gridtemplate (fst (render this))) = length (parsed_schema this) + 1 \<and>
      length (thead (snd (render this))) = length (parsed_schema this) + 1 \<and>
      children (hd (thead (snd (render this)))) = [])"
proof -
  have ex: "list_ex isArray (parsed_data this)
      = (\<exists>subrows. GroupedRow subrows \<in> set (parsed_data this))"
    by (auto simp: list_ex_iff isArray_iff)
  show ?thesis
  proof (cases "list_ex isArray (parsed_data this)")
    case True
    have "gridtemplate (fst (render this))
        = [Rem 1, Repeat (length (parsed_schema this)) [Fr 1]]"
      using True by (simp add: render_def Let_def)
    moreover have "column_count [Rem 1, Repeat (length (parsed_schema this)) [Fr 1]]
        = length (parsed_schema this) + 1"
      by (simp add: column_count_def)
    moreover have "length (thead (snd (render this))) = length (parsed_schema this) + 1"
      using True by (simp add: render_thead getHeaders_def render_hasHiddenRows render_parsed)
    moreover have "children (hd (thead (snd (render this)))) = []"
      using True by (simp add: render_thead getHeaders_def render_hasHiddenRows)
    ultimately show ?thesis using True ex by simp
  next
    case False
    have "gridtemplate (fst (render this)) = [Repeat (length (parsed_schema this)) [Fr 1]]"
      using False by (simp add: render_def Let_def)
    moreover have "column_count [Repeat (length (parsed_schema this)) [Fr 1]]
        = length (parsed_schema this)"
      by (simp add: column_count_def)
    moreover have "length (thead (snd (render this))) = length (parsed_schema this)"
      using False by (simp add: render_thead getHeaders_def render_hasHiddenRows render_parsed)
    ultimately show ?thesis using False ex by simp
  qed
qed

theorem render_column_count_witness:
  "(\<exists>subrows. GroupedRow subrows \<in> set (parsed_data (table_of dataset_mixed schema_A))) \<and>
   column_count (gridtemplate (fst (render (table_of dataset_mixed schema_A)))) = 2 \<and>
   length (thead (snd (render (table_of dataset_mixed schema_A)))) = 2 \<and>
   (\<forall>subrows. GroupedRow subrows \<notin> set (parsed_data (table_of dataset_plain schema_A))) \<and>
   column_count (gridtemplate (fst (render (table_of dataset_plain schema_A)))) = 1 \<and>
   length (thead (snd (render (table_of dataset_plain schema_A)))) = 1"
proof -
  have a: "\<exists>subrows. GroupedRow subrows \<in> set (parsed_data (table_of dataset_mixed schema_A))"
    by (simp add: sample_defs)
  have b: "\<forall>subrows. GroupedRow subrows \<notin> set (parsed_data (table_of dataset_plain schema_A))"
    by (simp add: sample_defs)
  have s: "length (parsed_schema (table_of dataset_mixed schema_A)) = 1"
    "length (parsed_schema (table_of dataset_plain schema_A)) = 1"
    by (simp_all add: sample_defs)
  show ?thesis
    using render_column_count[of "table_of dataset_mixed schema_A"]
      render_column_count[of "table_of dataset_plain schema_A"] a b s
    by (simp add: column_count_def)
qed

subsection \<open>Cell values\<close>

text \<open>
  Claim C2, as stated: the cell shows the column's default whenever the row lacks the
  field. It fails when the key names a member that every object inherits: for the row
  \<^verbatim>\<open>{}\<close> and the key \<^verbatim>\<open>toString\<close> the read \<^verbatim>\<open>row[h.key]\<close> gives the inherited
  function, which is not nullish, so the cell shows it and not the default \<^verbatim>\<open>-\<close>.
  The same holds for the subrow \<^verbatim>\<open>{}\<close> of a grouped row.
\<close>

theorem render_cell_value_counterexample:
  "parsed_data (table_of dataset_empty_objects schema_toString) ! 0 = PlainRow empty_object \<and>
   parsed_data (table_of dataset_empty_objects schema_toString) ! 1 = GroupedRow [empty_object] \<and>
   empty_object (key (schema_toString ! 0)) = None \<and>
   cell_value_spec empty_object (schema_toString ! 0) = Str ''-'' \<and>
   children (tbody (snd (render (table_of dataset_empty_objects schema_toString))) ! 0 ! 1)
     = [Value (Inherited ''toString'')] \<and>
   children (tbody (snd (render (table_of dataset_empty_objects schema_toString))) ! 0 ! 1)
     \<noteq> [Value (cell_value_spec empty_object (schema_toString ! 0))] \<and>
   children (tbody (snd (render (table_of dataset_empty_objects schema_toString))) ! 1 ! 1)
     \<noteq> [Value (cell_value_spec empty_object (schema_toString ! 0))]"
  by (simp add: sample_defs render_def Let_def getRows_def subrow_cells_def
      get_def nullish_def cell_value_spec_def Object_prototype_def)

text \<open>
  Claim C2, amended. For a plain row \<open>r\<close> and for every subrow of a grouped row, the cell
  rendered for schema column \<open>c\<close> shows the row's own field \<open>key c\<close> when that field is
  present and not nullish; it shows the column's default when the field is present and
  nullish, or absent with \<open>key c\<close> not the name of a member inherited from
  \<^verbatim>\<open>Object.prototype\<close>; when the field is absent and \<open>key c\<close> names an inherited
  member, the cell shows that member. The cell of column \<open>j\<close> of a plain row sits at
  position \<open>j\<close>, shifted by one when the data set has a grouped row; the cell of column
  \<open>j\<close> of subrow \<open>k\<close> sits at position \<open>k * (n + 1) + 1 + j\<close> of the grouped row's cells,
  \<open>n\<close> being the number of schema columns.
\<close>

theorem render_cell_value:
  "(i < length (parsed_data this) \<and> j < length (parsed_schema this) \<and>
    parsed_data this ! i = PlainRow r \<and>
    (r (key (parsed_schema this ! j)) \<noteq> None \<or>
     key (parsed_schema this ! j) \<notin> set Object_prototype) \<longrightarrow>
      children (tbody (snd (render this)) ! i !
                  ((if list_ex isArray (parsed_data this) then 1 else 0) + j))
        = [Value (cell_value_spec r (parsed_schema this ! j))]) \<and>
   (i < length (parsed_data this) \<and> j < length (parsed_schema this) \<and>
    parsed_data this ! i = GroupedRow subrows \<and> k < length subrows \<and>
    ((subrows ! k) (key (parsed_schema this ! j)) \<noteq> None \<or>
     key (parsed_schema this ! j) \<notin> set Object_prototype) \<longrightarrow>
      children (tbody (snd (render this)) ! i ! (k * (length (parsed_schema this) + 1) + (1 + j)))
        = [Value (cell_value_spec (subrows ! k) (parsed_schema this ! j))]) \<and>
   (i < length (parsed_data this) \<and> j < length (parsed_schema this) \<and>
    parsed_data this ! i = PlainRow r \<and>
    r (key (parsed_schema this ! j)) = None \<and>
    key (parsed_schema this ! j) \<in> set Object_prototype \<longrightarrow>
      children (tbody (snd (render this)) ! i !
                  ((if list_ex isArray (parsed_data this) then 1 else 0) + j))
        = [Value (Inherited (key (parsed_schema this ! j)))]) \<and>
   (i < length (parsed_data this) \<and> j < length (parsed_schema this) \<and>
    parsed_data this ! i = GroupedRow subrows \<and> k < length subrows \<and>
    (subrows ! k) (key (parsed_schema this ! j)) = None \<and>
    key (parsed_schema this ! j) \<in> set Object_prototype \<longrightarrow>
      children (tbody (snd (render this)) ! i ! (k * (length (parsed_schema this) + 1) + (1 + j)))
        = [Value (Inherited (key (parsed_schema this ! j)))])"
proof (intro conjI impI)
  assume a: "i < length (parsed_data this) \<and> j < length (parsed_schema this) \<and>
    parsed_data this ! i = PlainRow r \<and>
    (r (key (parsed_schema this ! j)) \<noteq> None \<or>
     key (parsed_schema this ! j) \<notin> set Object_prototype)"
  then have "nullish (get r (key (parsed_schema this ! j))) (default (parsed_schema this ! j))
      = cell_value_spec r (parsed_schema this ! j)"
    by (intro nullish_spec) simp
  with a render_cell_plain[of i this j r]
  show "children (tbody (snd (render this)) ! i !
                  ((if list_ex isArray (parsed_data this) then 1 else 0) + j))
        = [Value (cell_value_spec r (parsed_schema this ! j))]"
    by simp
next
  assume a: "i < length (parsed_data this) \<and> j < length (parsed_schema this) \<and>
    parsed_data this ! i = GroupedRow subrows \<and> k < length subrows \<and>
    ((subrows ! k) (key (parsed_schema this ! j)) \<noteq> None \<or>
     key (parsed_schema this ! j) \<notin> set Object_prototype)"
  then have "nullish (get (subrows ! k) (key (parsed_schema this ! j)))
        (default (parsed_schema this ! j))
      = cell_value_spec (subrows ! k) (parsed_schema this ! j)"
    by (intro nullish_spec) simp
  with a render_cell_subrow[of i this j subrows k]
  show "children (tbody (snd (render this)) ! i !
          (k * (length (parsed_schema this) + 1) + (1 + j)))
        = [Value (cell_value_spec (subrows ! k) (parsed_schema this ! j))]"
    by simp
next
  assume a: "i < length (parsed_data this) \<and> j < length (parsed_schema this) \<and>
    parsed_data this ! i = PlainRow r \<and>
    r (key (parsed_schema this ! j)) = None \<and>
    key (parsed_schema this ! j) \<in> set Object_prototype"
  then have "nullish (get r (key (parsed_schema this ! j))) (default (parsed_schema this ! j))
      = Inherited (key (parsed_schema this ! j))"
    by (intro nullish_inherited) simp_all
  with a render_cell_plain[of i this j r]
  show "children (tbody (snd (render this)) ! i !
                  ((if list_ex isArray (parsed_data this) then 1 else 0) + j))
        = [Value (Inherited (key (parsed_schema this ! j)))]"
    by simp
next
  assume a: "i < length (parsed_data this) \<and> j < length (parsed_schema this) \<and>
    parsed_data this ! i = GroupedRow subrows \<and> k < length subrows \<and>
    (subrows ! k) (key (parsed_schema this ! j)) = None \<and>
    key (parsed_schema this ! j) \<in> set Object_prototype"
  then have "nullish (get (subrows ! k) (key (parsed_schema this ! j)))
        (default (parsed_schema this ! j))
      = Inherited (key (parsed_schema this ! j))"
    by (intro nullish_inherited) simp_all
  with a render_cell_subrow[of i this j subrows k]
  show "children (tbody (snd (render this)) ! i !
          (k * (length (parsed_schema this) + 1) + (1 + j)))
        = [Value (Inherited (key (parsed_schema this ! j)))]"
    by simp
qed

theorem render_cell_value_witness:
  "children (tbody (snd (render (table_of dataset_plain schema_A))) ! 0 ! 0) = [Value (Str ''-'')] \<and>
   children (tbody (snd (render (table_of dataset_plain schema_A))) ! 1 ! 0) = [Value (Str ''-'')] \<and>
   children (tbody (snd (render (table_of dataset_mixed schema_A))) ! 0 ! 1) = [Value (Num 1)] \<and>
   children (tbody (snd (render (table_of dataset_mixed schema_A))) ! 1 ! 3) = [Value (Num 3)] \<and>
   children (tbody (snd (render (table_of dataset_empty_objects schema_toString))) ! 0 ! 1)
     = [Value (Inherited ''toString'')] \<and>
   children (tbody (snd (render (table_of dataset_empty_objects schema_toString))) ! 1 ! 1)
     = [Value (Inherited ''toString'')]"
proof -
  have 1: "children (tbody (snd (render (table_of dataset_plain schema_A))) ! 0 ! 0)
      = [Value (Str ''-'')]"
    using render_cell_value[of 0 "table_of dataset_plain schema_A" 0 Map.empty]
    by (simp add: sample_defs cell_value_spec_def Object_prototype_def)
  have 2: "children (tbody (snd (render (table_of dataset_plain schema_A))) ! 1 ! 0)
      = [Value (Str ''-'')]"
    using render_cell_value[of 1 "table_of dataset_plain schema_A" 0 "[''a'' \<mapsto> Null]"]
    by (simp add: sample_defs cell_value_spec_def Object_prototype_def)
  have 3: "children (tbody (snd (render (table_of dataset_mixed schema_A))) ! 0 ! 1)
      = [Value (Num 1)]"
    using render_cell_value[of 0 "table_of dataset_mixed schema_A" 0 "[''a'' \<mapsto> Num 1]"]
    by (simp add: sample_defs cell_value_spec_def Object_prototype_def)
  have 4: "children (tbody (snd (render (table_of dataset_mixed schema_A))) ! 1 ! 3)
      = [Value (Num 3)]"
    using render_cell_value[of 1 "table_of dataset_mixed schema_A" 0 _
        "[[''a'' \<mapsto> Num 2], [''a'' \<mapsto> Num 3]]" 1]
    by (simp add: sample_defs cell_value_spec_def numeral_3_eq_3 Object_prototype_def)
  have 5: "children (tbody (snd (render (table_of dataset_empty_objects schema_toString))) ! 0 ! 1)
      = [Value (Inherited ''toString'')]"
    using render_cell_value[of 0 "table_of dataset_empty_objects schema_toString" 0 empty_object]
    by (simp add: sample_defs Object_prototype_def)
  have 6: "children (tbody (snd (render (table_of dataset_empty_objects schema_toString))) ! 1 ! 1)
      = [Value (Inherited ''toString'')]"
    using render_cell_value[of 1 "table_of dataset_empty_objects schema_toString" 0 _
        "[empty_object]" 0]
    by (simp add: sample_defs Object_prototype_def)
  show ?thesis using 1 2 3 4 5 6 by simp
qed

subsection \<open>The empty data set and the footer\<close>

text \<open>
  Claim C8. With an empty data set the body is exactly one row holding the single
  \<^verbatim>\<open>nodata\<close> cell, whatever the schema is: no cell is produced for any schema column.
\<close>

theorem render_empty_dataset:
  "parsed_data this = [] \<Longrightarrow>
   tbody (snd (render this)) =
     [[\<lparr> tag = TD, classList = [''nodata''], onclick = False,
         children = [Text ''There is no data to show''] \<rparr>]]"
  by (simp add: render_tbody getRows_def render_parsed)

theorem render_empty_dataset_witness:
  "parsed_data (table_of [] schema_A) = [] \<and>
   tbody (snd (render (table_of [] schema_A))) =
     [[\<lparr> tag = TD, classList = [''nodata''], onclick = False,
         children = [Text ''There is no data to show''] \<rparr>]]"
proof -
  have h: "parsed_data (table_of [] schema_A) = []" by (simp add: sample_defs)
  show ?thesis using h render_empty_dataset[OF h] by simp
qed

text \<open>
  Claim C9. The footer row is a single cell showing the number of top-level entries of
  the data set followed by \<^verbatim>\<open> records\<close>; a grouped row is one entry.
\<close>

theorem render_footer_count:
  "tfoot (snd (render this)) =
     [\<lparr> tag = TD, classList = [], onclick = False,
        children = [Small [Value (Num (real (length (parsed_data this)))), Text '' records'']] \<rparr>]"
  by (simp add: render_def Let_def)

theorem render_footer_count_witness:
  "tfoot (snd (render (table_of dataset_mixed schema_A))) =
     [\<lparr> tag = TD, classList = [], onclick = False,
        children = [Small [Value (Num 2), Text '' records'']] \<rparr>]"
  using render_footer_count[of "table_of dataset_mixed schema_A"] by (simp add: sample_defs)

subsection \<open>Facts about the click handler\<close>

lemma later_subrows_classes:
  "c \<in> set (concat (map (subrow_cells sch) (enumerate (Suc n) subrows))) \<Longrightarrow>
   classList c = [''subrow'', ''hidden'']"
  by (auto simp: subrow_cells_def in_set_enumerate_eq)

lemma first_subrow_classes:
  "c \<in> set (subrow_cells sch (0, s)) \<Longrightarrow> classList c = [''expander''] \<or> classList c = []"
  by (auto simp: subrow_cells_def)

lemma handle_head:
  "handleToggleExpandClick 0 (c # cs) =
     (flip_hidden c)\<lparr> classList := toggle ''expanded'' (classList (flip_hidden c)) \<rparr>
     # map flip_hidden cs"
  by (simp add: handleToggleExpandClick_def Let_def flip_hidden_def)

lemma grouped_row_split:
  "row_cells this (GroupedRow (s # subrows)) =
     \<lparr> tag = TD, classList = [''expander''], onclick = True, children = [] \<rparr>
     # (tl (subrow_cells (parsed_schema this) (0, s))
        @ concat (map (subrow_cells (parsed_schema this)) (enumerate (Suc 0) subrows)))"
  by (simp add: subrow_cells_def)

lemma row_cells_grouped_append:
  "row_cells this (GroupedRow (s # subrows)) =
     subrow_cells (parsed_schema this) (0, s)
     @ concat (map (subrow_cells (parsed_schema this)) (enumerate (Suc 0) subrows))"
  by simp

lemma flip_hidden_first:
  "c \<in> set (tl (subrow_cells sch (0, s))) \<Longrightarrow> flip_hidden c = c"
  by (auto simp: subrow_cells_def flip_hidden_def)

lemma flip_hidden_later:
  "c \<in> set (concat (map (subrow_cells sch) (enumerate (Suc n) subrows))) \<Longrightarrow>
   flip_hidden c = c\<lparr> classList := [''subrow''] \<rparr>"
  using later_subrows_classes[of c sch n subrows]
  by (simp add: flip_hidden_def toggle_def)

lemma flip_hidden_later_twice:
  "c \<in> set (concat (map (subrow_cells sch) (enumerate (Suc n) subrows))) \<Longrightarrow>
   flip_hidden (flip_hidden c) = c"
  using later_subrows_classes[of c sch n subrows]
  by (simp add: flip_hidden_def toggle_def)

text \<open>One click on the expander of a freshly rendered grouped row, and a second one.\<close>

lemma handle_collapsed:
  "handleToggleExpandClick 0 (row_cells this (GroupedRow (s # subrows)))
     = expanded_row (parsed_schema this) s subrows"
proof -
  have a: "map flip_hidden (tl (subrow_cells (parsed_schema this) (0, s)))
      = tl (subrow_cells (parsed_schema this) (0, s))"
    by (rule map_idI) (rule flip_hidden_first)
  have b: "map flip_hidden
        (concat (map (subrow_cells (parsed_schema this)) (enumerate (Suc 0) subrows)))
      = map (\<lambda>c. c\<lparr> classList := [''subrow''] \<rparr>)
          (concat (map (subrow_cells (parsed_schema this)) (enumerate (Suc 0) subrows)))"
    by (rule map_cong[OF refl]) (rule flip_hidden_later)
  show ?thesis
    unfolding grouped_row_split handle_head expanded_row_def
    using a b by (simp add: flip_hidden_def toggle_def)
qed

lemma handle_expanded:
  "handleToggleExpandClick 0 (expanded_row (parsed_schema this) s subrows)
     = row_cells this (GroupedRow (s # subrows))"
proof -
  let ?later = "concat (map (subrow_cells (parsed_schema this)) (enumerate (Suc 0) subrows))"
  have a: "map flip_hidden (tl (subrow_cells (parsed_schema this) (0, s)))
      = tl (subrow_cells (parsed_schema this) (0, s))"
    by (rule map_idI) (rule flip_hidden_first)
  have "map flip_hidden (map (\<lambda>c. c\<lparr> classList := [''subrow''] \<rparr>) ?later)
      = map (\<lambda>c. flip_hidden (flip_hidden c)) ?later"
    unfolding map_map comp_def
    by (rule map_cong[OF refl]) (simp add: flip_hidden_later)
  also have "\<dots> = ?later"
    by (rule map_idI) (rule flip_hidden_later_twice)
  finally have b:
    "map flip_hidden (map (\<lambda>c. c\<lparr> classList := [''subrow''] \<rparr>) ?later) = ?later" .
  show ?thesis
    unfolding grouped_row_split expanded_row_def handle_head
    using a b by (simp add: flip_hidden_def toggle_def)
qed

lemma funpow_involution:
  "f (f x) = x \<Longrightarrow> (f ^^ n) x = (if even n then x else f x)"
  by (induction n) auto

lemma collapsed_hidden_positions:
  assumes "p < length (row_cells this (GroupedRow (s # subrows)))"
  shows "hidden (row_cells this (GroupedRow (s # subrows)) ! p)
           = (length (parsed_schema this) + 1 \<le> p)"
proof (cases "p < length (parsed_schema this) + 1")
  case True
  then have "row_cells this (GroupedRow (s # subrows)) ! p
      = subrow_cells (parsed_schema this) (0, s) ! p"
    unfolding row_cells_grouped_append by (simp add: nth_append length_subrow_cells)
  moreover have "subrow_cells (parsed_schema this) (0, s) ! p
      \<in> set (subrow_cells (parsed_schema this) (0, s))"
    using True by (intro nth_mem) (simp add: length_subrow_cells)
  then have "classList (subrow_cells (parsed_schema this) (0, s) ! p) = [''expander''] \<or>
      classList (subrow_cells (parsed_schema this) (0, s) ! p) = []"
    by (rule first_subrow_classes)
  ultimately show ?thesis
    using True by (auto simp: hidden_def)
next
  case False
  let ?later = "concat (map (subrow_cells (parsed_schema this)) (enumerate (Suc 0) subrows))"
  have len: "length (row_cells this (GroupedRow (s # subrows)))
      = length (parsed_schema this) + 1 + length ?later"
    unfolding row_cells_grouped_append by (simp add: length_subrow_cells)
  have "row_cells this (GroupedRow (s # subrows)) ! p
      = ?later ! (p - (length (parsed_schema this) + 1))"
    using False unfolding row_cells_grouped_append
    by (simp add: nth_append length_subrow_cells)
  moreover have "?later ! (p - (length (parsed_schema this) + 1)) \<in> set ?later"
    using False assms len by (intro nth_mem) simp
  then have "classList (?later ! (p - (length (parsed_schema this) + 1)))
      = [''subrow'', ''hidden'']"
    by (rule later_subrows_classes)
  ultimately show ?thesis
    using False by (auto simp: hidden_def)
qed

lemma expanded_row_visible:
  "c \<in> set (expanded_row sch s subrows) \<Longrightarrow> \<not> hidden c"
  by (auto simp: expanded_row_def hidden_def subrow_cells_def)

lemma length_expanded_row:
  "length (expanded_row (parsed_schema this) s subrows)
     = length (row_cells this (GroupedRow (s # subrows)))"
  by (simp add: expanded_row_def subrow_cells_def)

lemma in_toggle_other:
  "x \<noteq> token \<Longrightarrow> (x \<in> set (toggle token cl)) = (x \<in> set cl)"
  by (auto simp: toggle_def)

lemma length_handle: "length (handleToggleExpandClick j row) = length row"
  by (simp add: handleToggleExpandClick_def Let_def)

text \<open>
  A cell that is neither marked \<^verbatim>\<open>subrow\<close> nor hidden stays so under the handler,
  wherever the click lands, and hence under any sequence of clicks.
\<close>

lemma handle_unmarked:
  assumes "p < length row" "\<not> subrow_marked (row ! p)" "\<not> hidden (row ! p)"
  shows "\<not> subrow_marked (handleToggleExpandClick j row ! p) \<and>
         \<not> hidden (handleToggleExpandClick j row ! p)"
proof (cases "p = j")
  case True
  with assms show ?thesis
    by (simp add: handleToggleExpandClick_def Let_def subrow_marked_def hidden_def
        in_toggle_other)
next
  case False
  with assms show ?thesis
    by (simp add: handleToggleExpandClick_def Let_def subrow_marked_def hidden_def)
qed

lemma click_unmarked:
  assumes "i < length (tbody t)" "p < length (tbody t ! i)"
    "\<not> subrow_marked (tbody t ! i ! p)" "\<not> hidden (tbody t ! i ! p)"
  shows "i < length (tbody (click a b t)) \<and> p < length (tbody (click a b t) ! i) \<and>
         \<not> subrow_marked (tbody (click a b t) ! i ! p) \<and>
         \<not> hidden (tbody (click a b t) ! i ! p)"
proof (cases "a = i")
  case True
  with assms handle_unmarked[of p "tbody t ! i" b] show ?thesis
    by (simp add: click_def length_handle)
next
  case False
  with assms show ?thesis by (simp add: click_def)
qed

lemma clicks_unmarked:
  "i < length (tbody t) \<Longrightarrow> p < length (tbody t ! i) \<Longrightarrow>
   \<not> subrow_marked (tbody t ! i ! p) \<Longrightarrow> \<not> hidden (tbody t ! i ! p) \<Longrightarrow>
   \<not> subrow_marked (tbody (clicks cs t) ! i ! p) \<and> \<not> hidden (tbody (clicks cs t) ! i ! p)"
proof (induction cs arbitrary: t)
  case Nil
  then show ?case by simp
next
  case (Cons c cs)
  from click_unmarked[OF Cons.prems, of "fst c" "snd c"]
  show ?case using Cons.IH[of "click (fst c) (snd c) t"] by simp
qed

subsection \<open>Expanding and collapsing\<close>

text \<open>
  Claim C3. Take a grouped row with at least one subrow, at entry \<open>i\<close> of the data set;
  its expander is cell \<open>0\<close> of body row \<open>i\<close>. Starting from the rendered table \<open>t0\<close>,
  an even number of clicks on the expander gives \<open>t0\<close> again and an odd number gives
  the table \<open>t1\<close> of one click. In \<open>t0\<close> the hidden cells of the row are exactly the
  cells of the subrows after the first (positions from \<open>n + 1\<close> on, \<open>n\<close> the number of
  schema columns) and the expander is not marked \<^verbatim>\<open>expanded\<close>; in \<open>t1\<close> no cell of
  the row is hidden and the expander is marked \<^verbatim>\<open>expanded\<close>.
\<close>

theorem expander_click_parity:
  assumes i: "i < length (parsed_data this)"
    and g: "parsed_data this ! i = GroupedRow (s # subrows)"
    and t0: "t0 = snd (render this)"
    and t1: "t1 = click i 0 t0"
  shows "((click i 0 ^^ n) t0 = (if even n then t0 else t1)) \<and>
         (\<forall>p < length (tbody t0 ! i).
            hidden (tbody t0 ! i ! p) = (length (parsed_schema this) + 1 \<le> p)) \<and>
         \<not> expanded (tbody t0 ! i ! 0) \<and>
         length (tbody t1 ! i) = length (tbody t0 ! i) \<and>
         (\<forall>p < length (tbody t1 ! i). \<not> hidden (tbody t1 ! i ! p)) \<and>
         expanded (tbody t1 ! i ! 0)"
proof -
  let ?st = "fst (render this)"
  let ?row0 = "row_cells ?st (GroupedRow (s # subrows))"
  let ?row1 = "expanded_row (parsed_schema ?st) s subrows"
  from i have ne: "parsed_data this \<noteq> []" by auto
  have len0: "length (tbody t0) = length (parsed_data this)"
    using ne t0 by (simp add: render_tbody_length)
  have row0: "tbody t0 ! i = ?row0"
    using i g t0 by (simp add: render_tbody_nth del: row_cells.simps)
  have sch: "parsed_schema ?st = parsed_schema this"
    by (rule render_parsed)
  have head0: "0 < length ?row0 \<and> onclick (?row0 ! 0)"
    by (simp add: grouped_row_split del: row_cells.simps)
  have head1: "0 < length ?row1 \<and> onclick (?row1 ! 0)"
    by (simp add: expanded_row_def)
  have t1_eq: "t1 = t0\<lparr> tbody := (tbody t0)[i := ?row1] \<rparr>"
    unfolding t1 click_def using i len0 row0 head0 handle_collapsed[of ?st s subrows]
    by (simp del: row_cells.simps)
  have row1: "tbody t1 ! i = ?row1"
    using t1_eq i len0 by simp
  have twice: "click i 0 t1 = t0"
  proof -
    have "length (tbody t1) = length (tbody t0)"
      using t1_eq by simp
    then have "click i 0 t1 = t1\<lparr> tbody := (tbody t1)[i := ?row0] \<rparr>"
      unfolding click_def using i len0 row1 head1 handle_expanded[of ?st s subrows]
      by (simp del: row_cells.simps)
    also have "\<dots> = t0\<lparr> tbody := (tbody t0)[i := tbody t0 ! i] \<rparr>"
      using t1_eq row0 by (simp del: row_cells.simps)
    also have "\<dots> = t0"
      by simp
    finally show ?thesis .
  qed
  have inv: "click i 0 (click i 0 t0) = t0"
    using twice t1 by simp
  have parity: "(click i 0 ^^ n) t0 = (if even n then t0 else t1)"
    using funpow_involution[of "click i 0" t0 n, OF inv] t1 by simp
  have hid0: "\<forall>p < length (tbody t0 ! i).
            hidden (tbody t0 ! i ! p) = (length (parsed_schema this) + 1 \<le> p)"
    using collapsed_hidden_positions[of _ ?st s subrows] row0 sch
    by (simp del: row_cells.simps)
  have exp0: "\<not> expanded (tbody t0 ! i ! 0)"
    using row0 by (simp add: expanded_def grouped_row_split del: row_cells.simps)
  have len1: "length (tbody t1 ! i) = length (tbody t0 ! i)"
    using row0 row1 length_expanded_row[of ?st s subrows] by (simp del: row_cells.simps)
  have hid1: "\<forall>p < length (tbody t1 ! i). \<not> hidden (tbody t1 ! i ! p)"
    using row1 expanded_row_visible[of _ "parsed_schema ?st" s subrows] by simp
  have exp1: "expanded (tbody t1 ! i ! 0)"
    using row1 by (simp add: expanded_def expanded_row_def)
  show ?thesis using parity hid0 exp0 len1 hid1 exp1 by blast
qed

theorem expander_click_parity_witness:
  "(click 1 0 ^^ 4) (snd (render (table_of dataset_mixed schema_A)))
     = snd (render (table_of dataset_mixed schema_A)) \<and>
   (click 1 0 ^^ 3) (snd (render (table_of dataset_mixed schema_A)))
     = click 1 0 (snd (render (table_of dataset_mixed schema_A))) \<and>
   hidden (tbody (snd (render (table_of dataset_mixed schema_A))) ! 1 ! 3) \<and>
   \<not> hidden (tbody (click 1 0 (snd (render (table_of dataset_mixed schema_A)))) ! 1 ! 3) \<and>
   expanded (tbody (click 1 0 (snd (render (table_of dataset_mixed schema_A)))) ! 1 ! 0)"
proof -
  let ?st = "table_of dataset_mixed schema_A"
  have i: "1 < length (parsed_data ?st)" by (simp add: sample_defs)
  have g: "parsed_data ?st ! 1 = GroupedRow ([''a'' \<mapsto> Num 2] # [[''a'' \<mapsto> Num 3]])"
    by (simp add: sample_defs)
  note th = expander_click_parity[OF i g refl refl]
  have len: "length (tbody (snd (render ?st)) ! 1) = 4"
    by (simp add: sample_defs render_def Let_def getRows_def subrow_cells_def)
  have sch: "length (parsed_schema ?st) = 1" by (simp add: sample_defs)
  from th[of 4] th[of 3] len sch show ?thesis by simp
qed

text \<open>
  Claim C4. A click on any cell of body row \<open>i\<close> leaves the header row, the footer row,
  the number of body rows and every other body row as they were: only cells of row \<open>i\<close>
  can change their class lists.
\<close>

theorem click_frame:
  "thead (click i j t) = thead t \<and> tfoot (click i j t) = tfoot t \<and>
   length (tbody (click i j t)) = length (tbody t) \<and>
   (\<forall>k. k \<noteq> i \<longrightarrow> tbody (click i j t) ! k = tbody t ! k)"
  by (simp add: click_def)

theorem click_frame_witness:
  "(0::nat) \<noteq> 1 \<and>
   tbody (click 1 0 (snd (render (table_of dataset_groups schema_A)))) ! 0
     = tbody (snd (render (table_of dataset_groups schema_A))) ! 0 \<and>
   thead (click 1 0 (snd (render (table_of dataset_groups schema_A))))
     = thead (snd (render (table_of dataset_groups schema_A))) \<and>
   tfoot (click 1 0 (snd (render (table_of dataset_groups schema_A))))
     = tfoot (snd (render (table_of dataset_groups schema_A))) \<and>
   tbody (click 1 0 (snd (render (table_of dataset_groups schema_A)))) ! 1
     \<noteq> tbody (snd (render (table_of dataset_groups schema_A))) ! 1"
proof -
  have changed: "tbody (click 1 0 (snd (render (table_of dataset_groups schema_A)))) ! 1
     \<noteq> tbody (snd (render (table_of dataset_groups schema_A))) ! 1"
    by (simp add: sample_defs render_def Let_def getRows_def getHeaders_def subrow_cells_def
        click_def handleToggleExpandClick_def toggle_def)
  show ?thesis
    using click_frame[of 1 0 "snd (render (table_of dataset_groups schema_A))"] changed
    by simp
qed

text \<open>
  Claim C10. The cells of the first subrow of a grouped row (positions \<open>0\<close> to \<open>n\<close> of
  the row, \<open>n\<close> the number of schema columns) are rendered without the markers
  \<^verbatim>\<open>hidden\<close> and \<^verbatim>\<open>subrow\<close>, and carry neither after any sequence of clicks on any
  cells of the table.
\<close>

theorem first_subrow_never_hidden:
  assumes i: "i < length (parsed_data this)"
    and g: "parsed_data this ! i = GroupedRow (s # subrows)"
    and p: "p \<le> length (parsed_schema this)"
  shows "\<not> hidden (tbody (snd (render this)) ! i ! p) \<and>
         \<not> subrow_marked (tbody (snd (render this)) ! i ! p) \<and>
         \<not> hidden (tbody (clicks cs (snd (render this))) ! i ! p) \<and>
         \<not> subrow_marked (tbody (clicks cs (snd (render this))) ! i ! p)"
proof -
  let ?st = "fst (render this)"
  let ?t0 = "snd (render this)"
  from i have ne: "parsed_data this \<noteq> []" by auto
  have sch: "parsed_schema ?st = parsed_schema this" by (rule render_parsed)
  have len0: "i < length (tbody ?t0)"
    using ne i by (simp add: render_tbody_length)
  have row0: "tbody ?t0 ! i = row_cells ?st (GroupedRow (s # subrows))"
    using i g by (simp add: render_tbody_nth del: row_cells.simps)
  have plen: "p < length (tbody ?t0 ! i)"
    using p sch unfolding row0 row_cells_grouped_append by (simp add: length_subrow_cells)
  have cellp: "tbody ?t0 ! i ! p = subrow_cells (parsed_schema this) (0, s) ! p"
    using p sch unfolding row0 row_cells_grouped_append
    by (simp add: nth_append length_subrow_cells)
  have "subrow_cells (parsed_schema this) (0, s) ! p
      \<in> set (subrow_cells (parsed_schema this) (0, s))"
    using p by (intro nth_mem) (simp add: length_subrow_cells)
  then have cls: "classList (tbody ?t0 ! i ! p) = [''expander''] \<or>
      classList (tbody ?t0 ! i ! p) = []"
    using first_subrow_classes cellp by metis
  have a: "\<not> subrow_marked (tbody ?t0 ! i ! p)" using cls by (auto simp: subrow_marked_def)
  have b: "\<not> hidden (tbody ?t0 ! i ! p)" using cls by (auto simp: hidden_def)
  from clicks_unmarked[OF len0 plen a b, of cs] a b show ?thesis by simp
qed

theorem first_subrow_never_hidden_witness:
  "\<not> hidden (tbody (clicks [(1, 0), (1, 2), (0, 0), (1, 0)]
       (snd (render (table_of dataset_mixed schema_A)))) ! 1 ! 1)"
proof -
  let ?st = "table_of dataset_mixed schema_A"
  have i: "1 < length (parsed_data ?st)" by (simp add: sample_defs)
  have g: "parsed_data ?st ! 1 = GroupedRow ([''a'' \<mapsto> Num 2] # [[''a'' \<mapsto> Num 3]])"
    by (simp add: sample_defs)
  have p: "1 \<le> length (parsed_schema ?st)" by (simp add: sample_defs)
  from first_subrow_never_hidden[OF i g p, of "[(1, 0), (1, 2), (0, 0), (1, 0)]"]
  show ?thesis by blast
qed

text \<open>
  Claim C7. The claim reads: only the leading cell of the first subrow is clickable, the
  leading cells of the later subrows are not, so only the expander can run the toggle.
  The template binds \<^verbatim>\<open>@click\<close> on the leading cell of every subrow. In the sample
  data set \<^verbatim>\<open>[{a:1}, [{a:2},{a:3}]]\<close> the leading cell of the second subrow (cell 2 of
  body row 1) carries the binding; once the row is expanded that cell is visible, and a
  click on it hides the second subrow again and marks itself \<^verbatim>\<open>expanded\<close>, while the
  expander keeps its \<^verbatim>\<open>expanded\<close> mark over a collapsed row.
\<close>

theorem placeholder_click_toggles:
  "onclick (tbody (snd (render (table_of dataset_mixed schema_A))) ! 1 ! 2) \<and>
   classList (tbody (snd (render (table_of dataset_mixed schema_A))) ! 1 ! 2)
     = [''subrow'', ''hidden''] \<and>
   \<not> hidden (tbody (click 1 0 (snd (render (table_of dataset_mixed schema_A)))) ! 1 ! 2) \<and>
   hidden (tbody (click 1 2 (click 1 0 (snd (render (table_of dataset_mixed schema_A))))) ! 1 ! 3) \<and>
   expanded (tbody (click 1 2 (click 1 0 (snd (render (table_of dataset_mixed schema_A))))) ! 1 ! 0) \<and>
   click 1 2 (click 1 0 (snd (render (table_of dataset_mixed schema_A))))
     \<noteq> snd (render (table_of dataset_mixed schema_A))"
  by (simp add: sample_defs render_def Let_def getRows_def subrow_cells_def
        click_def handleToggleExpandClick_def toggle_def hidden_def expanded_def)

subsection \<open>Parsing the inputs\<close>

text \<open>
  Claim C5, as stated: every update in which an input is not valid JSON throws. It fails
  for an input that is the empty string (the guard \<^verbatim>\<open>&& this.data\<close> skips it) and for an
  invalid input that has not changed: both runs below end without an exception.
\<close>

theorem willUpdate_invalid_input_counterexample:
  "parse_d_sample '''' = Inl SyntaxError \<and>
   thrown (willUpdate parse_d_sample parse_s_sample {''data''}
             (constructor\<lparr> data := Some '''' \<rparr>)) = None \<and>
   parse_d_sample ''{'' = Inl SyntaxError \<and>
   thrown (willUpdate parse_d_sample parse_s_sample {''schema''}
             (constructor\<lparr> data := Some ''{'' \<rparr>)) = None"
  by (simp add: willUpdate_def Let_def parse_d_sample_def parse_s_sample_def constructor_def)

text \<open>
  Claim C5, amended. An update throws exactly when an input that has changed and is a
  non-empty string fails to parse. When the data input fails, the component is left as it
  was. In every update, a parsed value that differs from its previous value is the result
  of a completed parse of its own input: a parse that did not complete leaves the parsed
  value unchanged.
\<close>

theorem willUpdate_parse_error:
  "(thrown (willUpdate parse_d parse_s changed this) \<noteq> None) =
     ((''data'' \<in> changed \<and> truthy (data this) \<and> isl (parse_d (the (data this)))) \<or>
      (''schema'' \<in> changed \<and> truthy (schema this) \<and> isl (parse_s (the (schema this))))) \<and>
   (''data'' \<in> changed \<and> truthy (data this) \<and> parse_d (the (data this)) = Inl e \<longrightarrow>
      thrown (willUpdate parse_d parse_s changed this) = Some e \<and>
      after (willUpdate parse_d parse_s changed this) = this) \<and>
   (parsed_data (after (willUpdate parse_d parse_s changed this)) \<noteq> parsed_data this \<longrightarrow>
      ''data'' \<in> changed \<and> truthy (data this) \<and>
      parse_d (the (data this))
        = Inr (parsed_data (after (willUpdate parse_d parse_s changed this)))) \<and>
   (parsed_schema (after (willUpdate parse_d parse_s changed this)) \<noteq> parsed_schema this \<longrightarrow>
      ''schema'' \<in> changed \<and> truthy (schema this) \<and>
      parse_s (the (schema this))
        = Inr (parsed_schema (after (willUpdate parse_d parse_s changed this))))"
  by (auto simp: willUpdate_def Let_def split: sum.splits option.splits if_splits)

theorem willUpdate_parse_error_witness:
  "thrown (willUpdate parse_d_sample parse_s_sample {''data'', ''schema''}
             ((table_of dataset_plain schema_A)\<lparr> data := Some ''{'' \<rparr>)) = Some SyntaxError \<and>
   after (willUpdate parse_d_sample parse_s_sample {''data'', ''schema''}
             ((table_of dataset_plain schema_A)\<lparr> data := Some ''{'' \<rparr>))
     = (table_of dataset_plain schema_A)\<lparr> data := Some ''{'' \<rparr> \<and>
   thrown (willUpdate parse_d_sample parse_s_sample {''data'', ''schema''}
             ((table_of dataset_plain schema_A)\<lparr> schema := Some ''{'' \<rparr>)) \<noteq> None \<and>
   parsed_schema (after (willUpdate parse_d_sample parse_s_sample {''data'', ''schema''}
             ((table_of dataset_plain schema_A)\<lparr> schema := Some ''{'' \<rparr>))) = schema_A"
proof -
  let ?a = "(table_of dataset_plain schema_A)\<lparr> data := Some ''{'' \<rparr>"
  let ?b = "(table_of dataset_plain schema_A)\<lparr> schema := Some ''{'' \<rparr>"
  let ?ch = "{''data'', ''schema''}"
  have a: "''data'' \<in> ?ch \<and> truthy (data ?a) \<and> parse_d_sample (the (data ?a)) = Inl SyntaxError"
    by (simp add: parse_d_sample_def)
  have b: "''schema'' \<in> ?ch \<and> truthy (schema ?b) \<and> isl (parse_s_sample (the (schema ?b)))"
    by (simp add: parse_s_sample_def)
  have c: "parsed_schema ?b = schema_A"
    by (simp add: table_of_def)
  have d: "parse_s_sample (the (schema ?b)) = Inl SyntaxError"
    by (simp add: parse_s_sample_def)
  note ta = willUpdate_parse_error[of parse_d_sample parse_s_sample ?ch ?a SyntaxError]
  note tb = willUpdate_parse_error[of parse_d_sample parse_s_sample ?ch ?b SyntaxError]
  have 1: "thrown (willUpdate parse_d_sample parse_s_sample ?ch ?a) = Some SyntaxError \<and>
      after (willUpdate parse_d_sample parse_s_sample ?ch ?a) = ?a"
    using ta a by blast
  have 2: "thrown (willUpdate parse_d_sample parse_s_sample ?ch ?b) \<noteq> None"
    using tb b by blast
  have 3: "parsed_schema (after (willUpdate parse_d_sample parse_s_sample ?ch ?b))
      = parsed_schema ?b"
  proof (rule ccontr)
    assume "parsed_schema (after (willUpdate parse_d_sample parse_s_sample ?ch ?b))
      \<noteq> parsed_schema ?b"
    with tb have "parse_s_sample (the (schema ?b))
      = Inr (parsed_schema (after (willUpdate parse_d_sample parse_s_sample ?ch ?b)))"
      by blast
    with d show False by simp
  qed
  show ?thesis using 1 2 3 c by simp
qed

text \<open>
  Claim C6, as stated: an input is re-parsed exactly when it has changed, and a failure on
  one input has no effect on whether the other is parsed. It fails twice: a changed input
  that is the empty string is not parsed, and a changed schema is not parsed when the
  parse of the data input throws first (with a valid data input the same schema is
  parsed).
\<close>

theorem willUpdate_reparse_counterexample:
  "''data'' \<in> {''data''} \<and>
   ''data'' \<notin> set (parsed (willUpdate parse_d_sample parse_s_sample {''data''}
                              (constructor\<lparr> data := Some '''' \<rparr>))) \<and>
   ''schema'' \<in> {''data'', ''schema''} \<and>
   ''schema'' \<notin> set (parsed (willUpdate parse_d_sample parse_s_sample {''data'', ''schema''}
                              (constructor\<lparr> data := Some ''{'', schema := Some ''[]'' \<rparr>))) \<and>
   ''schema'' \<in> set (parsed (willUpdate parse_d_sample parse_s_sample {''data'', ''schema''}
                              (constructor\<lparr> data := Some ''[]'', schema := Some ''[]'' \<rparr>)))"
  by (simp add: willUpdate_def Let_def parse_d_sample_def parse_s_sample_def constructor_def)

text \<open>
  Claim C6, amended. The data input is parsed exactly when it has changed and is a
  non-empty string; the schema input is parsed exactly when it has changed, is a non-empty
  string and the data parse of the same update did not throw. The parsed data set after
  the update is determined by the data input alone, and the parsed schema, when the schema
  is parsed, by the schema text alone.
\<close>

theorem willUpdate_reparse:
  "(''data'' \<in> set (parsed (willUpdate parse_d parse_s changed this)))
     = (''data'' \<in> changed \<and> truthy (data this)) \<and>
   (''schema'' \<in> set (parsed (willUpdate parse_d parse_s changed this)))
     = (''schema'' \<in> changed \<and> truthy (schema this) \<and>
        \<not> (''data'' \<in> changed \<and> truthy (data this) \<and> isl (parse_d (the (data this))))) \<and>
   parsed_data (after (willUpdate parse_d parse_s changed this))
     = (if ''data'' \<in> changed \<and> truthy (data this)
        then (case parse_d (the (data this)) of Inl e \<Rightarrow> parsed_data this | Inr v \<Rightarrow> v)
        else parsed_data this) \<and>
   parsed_schema (after (willUpdate parse_d parse_s changed this))
     = (if ''schema'' \<in> set (parsed (willUpdate parse_d parse_s changed this))
        then (case parse_s (the (schema this)) of Inl e \<Rightarrow> parsed_schema this | Inr v \<Rightarrow> v)
        else parsed_schema this)"
  by (auto simp: willUpdate_def Let_def split: sum.splits option.splits if_splits)

theorem willUpdate_reparse_witness:
  "parsed (willUpdate parse_d_sample parse_s_sample {''schema''}
             ((table_of dataset_plain schema_A)\<lparr> data := Some ''{'' \<rparr>)) = [''schema''] \<and>
   parsed_data (after (willUpdate parse_d_sample parse_s_sample {''schema''}
             ((table_of dataset_plain schema_A)\<lparr> data := Some ''{'' \<rparr>))) = dataset_plain \<and>
   parsed_schema (after (willUpdate parse_d_sample parse_s_sample {''schema''}
             ((table_of dataset_plain schema_A)\<lparr> data := Some ''{'' \<rparr>))) = []"
proof -
  let ?a = "(table_of dataset_plain schema_A)\<lparr> data := Some ''{'' \<rparr>"
  have pre: "''schema'' \<in> {''schema''} \<and> ''data'' \<notin> {''schema''} \<and> truthy (schema ?a) \<and>
      parse_s_sample (the (schema ?a)) = Inr [] \<and> parsed_data ?a = dataset_plain"
    by (simp add: sample_defs parse_s_sample_def)
  have log: "parsed (willUpdate parse_d_sample parse_s_sample {''schema''} ?a) = [''schema'']"
    by (simp add: willUpdate_def Let_def sample_defs parse_s_sample_def)
  from willUpdate_reparse[of parse_d_sample parse_s_sample "{''schema''}" ?a] pre log
  show ?thesis by simp
qed

end
